theory Spec2Isabelle
  imports Complex_Main
begin

section \<open>JavaScript values, numbers and strings\<close>

text \<open>
  Numbers are modelled by exact rationals: every formula of the payroll engine is built
  from \<open>+\<close>, \<open>-\<close>, \<open>*\<close>, \<open>/\<close>, comparisons and \<open>Math.round\<close>, and the
  statements below are algebraic identities between such formulas. Where a function is
  studied on arbitrary values, a number is a \<open>jsnum\<close>: a rational, an infinity or
  NaN (the sign of zero is left out). Strings are lists of
  characters; only ASCII letters change under \<open>toLowerCase\<close> and
  \<open>toUpperCase\<close>, and only ASCII digits match \<open>\d\<close>, so a character
  outside ASCII never takes part in a match against the keywords and patterns of the
  code.
\<close>

datatype js_error = TypeError

definition is_digit :: "char \<Rightarrow> bool" where
  "is_digit c = (c \<in> set ''0123456789'')"

text \<open>The characters \<open>\s\<close> and \<open>trim\<close> remove, among the 8-bit characters.\<close>

definition is_space :: "char \<Rightarrow> bool" where
  "is_space c = (c \<in> set [CHR 0x09, CHR 0x0A, CHR 0x0B, CHR 0x0C, CHR 0x0D, CHR '' '', CHR 0xA0])"

definition upper_char :: "char \<Rightarrow> char" where
  "upper_char c =
     (if (97::nat) \<le> of_char c \<and> of_char c \<le> (122::nat) then char_of (of_char c - (32::nat)) else c)"

definition lower_char :: "char \<Rightarrow> char" where
  "lower_char c =
     (if (65::nat) \<le> of_char c \<and> of_char c \<le> (90::nat) then char_of (of_char c + (32::nat)) else c)"

definition toUpperCase :: "string \<Rightarrow> string" where
  "toUpperCase s = map upper_char s"

definition toLowerCase :: "string \<Rightarrow> string" where
  "toLowerCase s = map lower_char s"

definition trim :: "string \<Rightarrow> string" where
  "trim s = rev (dropWhile is_space (rev (dropWhile is_space s)))"

text \<open>\<open>s.split(c)\<close>: one more part than there are separators, never an empty array.\<close>

fun split_on :: "char \<Rightarrow> string \<Rightarrow> string list" where
  "split_on c [] = [[]]"
| "split_on c (x # xs) =
     (if x = c then [] # split_on c xs
      else (case split_on c xs of [] \<Rightarrow> [[x]] | p # ps \<Rightarrow> (x # p) # ps))"

text \<open>\<open>s.includes(k)\<close>: \<open>k\<close> occurs in \<open>s\<close> as a block of consecutive characters.\<close>

fun starts_with :: "string \<Rightarrow> string \<Rightarrow> bool" where
  "starts_with [] s = True"
| "starts_with (k # ks) [] = False"
| "starts_with (k # ks) (c # s) = (k = c \<and> starts_with ks s)"

fun js_includes :: "string \<Rightarrow> string \<Rightarrow> bool" where
  "js_includes [] k = starts_with k []"
| "js_includes (c # s) k = (starts_with k (c # s) \<or> js_includes s k)"

text \<open>\<open>parseInt(ds, 10)\<close> on a string of decimal digits.\<close>

definition digit_val :: "char \<Rightarrow> nat" where
  "digit_val c = of_char c - 48"

definition parseInt :: "string \<Rightarrow> nat" where
  "parseInt ds = foldl (\<lambda>a c. 10 * a + digit_val c) 0 ds"

text \<open>\<open>Math.round\<close>: the nearest integer, a tie going up.\<close>

definition Math_round :: "rat \<Rightarrow> rat" where
  "Math_round x = of_int \<lfloor>x + 1 / 2\<rfloor>"

section \<open>Schedule span resolver (getScheduleSpanHours)\<close>

text \<open>
  The pattern \<open>/(\d{1,2}):(\d{2})\s*(AM|PM)/i\<close>. \<open>digits_prefix n\<close> takes exactly
  \<open>n\<close> digits; \<open>re_ampm\<close> is \<open>\s*(AM|PM)\<close> without regard to case;
  \<open>time_with n\<close> is the whole pattern with \<open>n\<close> digits of hours, at the start of
  the string; \<open>re_time_at\<close> tries two digits of hours before one, as the greedy
  \<open>\d{1,2}\<close> does; \<open>re_search\<close> is \<open>String.prototype.match\<close>: the leftmost
  position where the pattern matches. A match gives the three groups and the rest of
  the string.
\<close>

fun digits_prefix :: "nat \<Rightarrow> string \<Rightarrow> (string \<times> string) option" where
  "digits_prefix 0 s = Some ([], s)"
| "digits_prefix (Suc n) [] = None"
| "digits_prefix (Suc n) (c # s) =
     (if is_digit c
      then (case digits_prefix n s of None \<Rightarrow> None | Some (ds, r) \<Rightarrow> Some (c # ds, r))
      else None)"

definition is_ampm :: "string \<Rightarrow> bool" where
  "is_ampm p = (toUpperCase p = ''AM'' \<or> toUpperCase p = ''PM'')"

definition re_ampm :: "string \<Rightarrow> (string \<times> string) option" where
  "re_ampm s =
     (case dropWhile is_space s of
        a # m # r \<Rightarrow> if is_ampm [a, m] then Some ([a, m], r) else None
      | _ \<Rightarrow> None)"

definition time_with :: "nat \<Rightarrow> string \<Rightarrow> (string \<times> string \<times> string \<times> string) option" where
  "time_with n s =
     (case digits_prefix n s of
        None \<Rightarrow> None
      | Some (h, r1) \<Rightarrow>
          (case r1 of
             [] \<Rightarrow> None
           | c # r2 \<Rightarrow>
               if c \<noteq> CHR '':'' then None
               else (case digits_prefix 2 r2 of
                       None \<Rightarrow> None
                     | Some (m, r3) \<Rightarrow>
                         (case re_ampm r3 of
                            None \<Rightarrow> None
                          | Some (p, r4) \<Rightarrow> Some (h, m, p, r4)))))"

definition re_time_at :: "string \<Rightarrow> (string \<times> string \<times> string \<times> string) option" where
  "re_time_at s = (case time_with 2 s of Some g \<Rightarrow> Some g | None \<Rightarrow> time_with 1 s)"

fun re_search :: "string \<Rightarrow> (string \<times> string \<times> string \<times> string) option" where
  "re_search [] = re_time_at []"
| "re_search (c # s) = (case re_time_at (c # s) of Some g \<Rightarrow> Some g | None \<Rightarrow> re_search s)"

text \<open>
  \<open>parseTo24hr\<close>, the inner helper of \<open>getScheduleSpanHours\<close>: minutes since
  midnight, or \<open>null\<close> when the pattern does not match. The two \<open>if\<close>s run one
  after the other, as in the source.
\<close>

definition parseTo24hr :: "string \<Rightarrow> nat option" where
  "parseTo24hr timeStr =
     (case re_search timeStr of
        None \<Rightarrow> None
      | Some (hours, minutes, period, _) \<Rightarrow>
          (let h = parseInt hours;
               h1 = (if toUpperCase period = ''PM'' \<and> h \<noteq> 12 then h + 12 else h);
               h2 = (if toUpperCase period = ''AM'' \<and> h1 = 12 then 0 else h1)
           in Some (h2 * 60 + parseInt minutes)))"

text \<open>
  The body of \<open>getScheduleSpanHours\<close> after its guard, on a string: split at the
  dashes, trim the parts, require exactly two, parse both.
\<close>

definition span_of_descriptor :: "string \<Rightarrow> rat option" where
  "span_of_descriptor s =
     (case map trim (split_on CHR ''-'' s) of
        [part0, part1] \<Rightarrow>
          (case (parseTo24hr part0, parseTo24hr part1) of
             (Some startMinutes, Some endMinutes) \<Rightarrow>
               Some ((rat_of_nat endMinutes - rat_of_nat startMinutes) / 60)
           | _ \<Rightarrow> None)
      | _ \<Rightarrow> None)"

text \<open>
  The argument of \<open>getScheduleSpanHours\<close> is whatever the employee object holds in
  \<open>coreWorkingHours\<close>. A value that is truthy and not a string has no \<open>split\<close>
  method: the call throws a TypeError.
\<close>

datatype jsnum = NaN | PInf | NInf | Fin rat

datatype jsval = JUndefined | JNull | JBool bool | JNum jsnum | JStr string

fun truthy_num :: "jsnum \<Rightarrow> bool" where
  "truthy_num NaN = False"
| "truthy_num PInf = True"
| "truthy_num NInf = True"
| "truthy_num (Fin x) = (x \<noteq> 0)"

fun truthy :: "jsval \<Rightarrow> bool" where
  "truthy JUndefined = False"
| "truthy JNull = False"
| "truthy (JBool b) = b"
| "truthy (JNum n) = truthy_num n"
| "truthy (JStr s) = (s \<noteq> [])"

definition getScheduleSpanHours :: "jsval \<Rightarrow> js_error + rat option" where
  "getScheduleSpanHours coreWorkingHours =
     (if \<not> truthy coreWorkingHours \<or> coreWorkingHours = JStr ''N/A'' then Inr None
      else (case coreWorkingHours of
              JStr s \<Rightarrow> Inr (span_of_descriptor s)
            | _ \<Rightarrow> Inl TypeError))"

text \<open>
  The employee objects of the attendance and payroll pages hold a string in
  \<open>coreWorkingHours\<close>, or nothing. \<open>scheduleSpanOf\<close> is \<open>getScheduleSpanHours\<close>
  at such a field (\<open>None\<close>: the field is missing).
\<close>

definition scheduleSpanOf :: "string option \<Rightarrow> rat option" where
  "scheduleSpanOf coreWorkingHours =
     (case coreWorkingHours of
        None \<Rightarrow> None
      | Some s \<Rightarrow> if s = [] \<or> s = ''N/A'' then None else span_of_descriptor s)"




section \<open>Employees, the fixed-rate test and the hourly rate\<close>

text \<open>
  An employee object as the pages hold it after loading: the free-text fields are
  strings (empty when the table has no value), the amounts are numbers.
  \<open>type_field\<close> is the property \<open>type\<close>. \<open>employeesMap.get(id)\<close> and
  \<open>getEmployeeById\<close> give an employee or nothing.
\<close>

record employee =
  rateType :: string
  employmentType :: string
  type_field :: string
  baseSalary :: rat
  standardWorkweekHours :: rat
  allowance :: rat
  coreWorkingHours :: "string option"

text \<open>\<open>isFixedRate\<close> of clock-in-api.js.\<close>

definition isFixedRate :: "employee option \<Rightarrow> bool" where
  "isFixedRate emp =
     (case emp of
        None \<Rightarrow> False
      | Some e \<Rightarrow>
          (let rateType = toLowerCase (rateType e);
               empType = toLowerCase (employmentType e)
           in js_includes rateType ''fixed'' \<or> js_includes rateType ''monthly'' \<or>
              js_includes rateType ''salary'' \<or> js_includes empType ''fixed''))"

text \<open>
  The test written out in attendance.js wherever overtime is computed
  (\<open>const isFixed = ...\<close>); the employment type falls back to \<open>type\<close>.
\<close>

definition isFixed :: "employee option \<Rightarrow> bool" where
  "isFixed employee =
     (let rateType = toLowerCase (case employee of None \<Rightarrow> [] | Some e \<Rightarrow> rateType e);
          empType = toLowerCase (case employee of
                                   None \<Rightarrow> []
                                 | Some e \<Rightarrow> if employmentType e \<noteq> [] then employmentType e
                                             else type_field e)
      in js_includes rateType ''fixed'' \<or> js_includes rateType ''monthly'' \<or>
         js_includes rateType ''salary'' \<or> js_includes empType ''fixed'')"

text \<open>
  \<open>calculateHourlyRate\<close> on an employee whose amounts are numbers; on such an employee
  the copies of attendance.js and clock-in-api.js are the same function. The copies on
  arbitrary values follow in the next section.
\<close>

definition calculateHourlyRate :: "employee option \<Rightarrow> rat" where
  "calculateHourlyRate emp =
     (let base = (case emp of None \<Rightarrow> 0 | Some e \<Rightarrow> baseSalary e) in
      if base = 0 then 0
      else
        let standard = (case emp of
                          None \<Rightarrow> 40
                        | Some e \<Rightarrow> if standardWorkweekHours e = 0 then 40
                                    else standardWorkweekHours e);
            daily = standard / 7;
            dailyRate = base / 30
        in dailyRate / daily)"

text \<open>
  \<open>calculateOvertimeFields\<close> of clock-in-api.js. Its second argument is modelled by
  what \<open>getEmployeeById\<close> gives: an employee, nothing, or an exception, which the
  \<open>catch\<close> swallows.
\<close>

record overtime_fields =
  TotalHoursWorked :: rat
  OvertimeHours :: rat
  OverTimePay :: rat

definition calculateOvertimeFields :: "rat \<Rightarrow> js_error + employee option \<Rightarrow> overtime_fields" where
  "calculateOvertimeFields totalHours fetched =
     (let result = \<lparr>TotalHoursWorked = Math_round (totalHours * 100) / 100,
                     OvertimeHours = 0, OverTimePay = 0\<rparr>
      in case fetched of
           Inl err \<Rightarrow> result
         | Inr employee \<Rightarrow>
             if isFixedRate employee then result
             else
               let standardDailyHours =
                     (case employee of Some e \<Rightarrow> standardWorkweekHours e / 7 | None \<Rightarrow> 8);
                   overtimeHours = max 0 (totalHours - standardDailyHours);
                   result1 = result\<lparr>OvertimeHours := Math_round (overtimeHours * 100) / 100\<rparr>
               in case employee of
                    None \<Rightarrow> result1
                  | Some e \<Rightarrow>
                      if baseSalary e > 0 \<and> overtimeHours > 0
                      then result1\<lparr>OverTimePay :=
                             Math_round (overtimeHours * calculateHourlyRate employee * (5 / 4) * 100) / 100\<rparr>
                      else result1)"


text \<open>
  The employees the specification calls Fixed: the rate type or the employment type contains
  one of the three keywords, in any case.
\<close>

definition claimed_fixed :: "employee \<Rightarrow> bool" where
  "claimed_fixed e =
     (let rt = toLowerCase (rateType e); et = toLowerCase (employmentType e) in
      js_includes rt ''fixed'' \<or> js_includes rt ''monthly'' \<or> js_includes rt ''salary'' \<or>
      js_includes et ''fixed'' \<or> js_includes et ''monthly'' \<or> js_includes et ''salary'')"

section \<open>calculateHourlyRate on arbitrary values\<close>

text \<open>
  \<open>Number(v)\<close> and the operand conversion of \<open>/\<close>. The conversion of a string is a
  parameter \<open>str2num\<close> of the model, so that the statements hold whatever number
  syntax it reads.
\<close>

fun ToNumber :: "(string \<Rightarrow> jsnum) \<Rightarrow> jsval \<Rightarrow> jsnum" where
  "ToNumber str2num JUndefined = NaN"
| "ToNumber str2num JNull = Fin 0"
| "ToNumber str2num (JBool b) = (if b then Fin 1 else Fin 0)"
| "ToNumber str2num (JNum n) = n"
| "ToNumber str2num (JStr s) = str2num s"

text \<open>Division of numbers; the rows with a zero divisor are the divisions by zero.\<close>

fun js_div :: "jsnum \<Rightarrow> jsnum \<Rightarrow> jsnum" where
  "js_div NaN y = NaN"
| "js_div x NaN = NaN"
| "js_div (Fin a) (Fin b) =
     (if b = 0 then (if a = 0 then NaN else if a > 0 then PInf else NInf) else Fin (a / b))"
| "js_div (Fin a) PInf = Fin 0"
| "js_div (Fin a) NInf = Fin 0"
| "js_div PInf (Fin b) = (if b \<ge> 0 then PInf else NInf)"
| "js_div NInf (Fin b) = (if b \<ge> 0 then NInf else PInf)"
| "js_div PInf PInf = NaN"
| "js_div PInf NInf = NaN"
| "js_div NInf PInf = NaN"
| "js_div NInf NInf = NaN"

text \<open>
  An employee object with whatever values its two amount fields hold
  (\<open>JUndefined\<close>: the property is missing); \<open>None\<close> is a null or undefined
  object, on which \<open>emp?.field\<close> is undefined.
\<close>

record raw_employee =
  raw_baseSalary :: jsval
  raw_standardWorkweekHours :: jsval

definition opt_baseSalary :: "raw_employee option \<Rightarrow> jsval" where
  "opt_baseSalary emp = (case emp of None \<Rightarrow> JUndefined | Some e \<Rightarrow> raw_baseSalary e)"

definition opt_standardWorkweekHours :: "raw_employee option \<Rightarrow> jsval" where
  "opt_standardWorkweekHours emp =
     (case emp of None \<Rightarrow> JUndefined | Some e \<Rightarrow> raw_standardWorkweekHours e)"

text \<open>
  attendance.js: \<open>base = Number(emp?.baseSalary) || 0\<close>,
  \<open>standard = Number(emp?.standardWorkweekHours) || 40\<close>, \<open>daily = standard / 7\<close>.
\<close>

definition att_base :: "(string \<Rightarrow> jsnum) \<Rightarrow> raw_employee option \<Rightarrow> jsnum" where
  "att_base str2num emp =
     (let n = ToNumber str2num (opt_baseSalary emp) in if truthy_num n then n else Fin 0)"

definition att_standard :: "(string \<Rightarrow> jsnum) \<Rightarrow> raw_employee option \<Rightarrow> jsnum" where
  "att_standard str2num emp =
     (let n = ToNumber str2num (opt_standardWorkweekHours emp) in if truthy_num n then n else Fin 40)"

definition att_daily :: "(string \<Rightarrow> jsnum) \<Rightarrow> raw_employee option \<Rightarrow> jsnum" where
  "att_daily str2num emp = js_div (att_standard str2num emp) (Fin 7)"

definition calculateHourlyRate_attendance :: "(string \<Rightarrow> jsnum) \<Rightarrow> raw_employee option \<Rightarrow> jsnum" where
  "calculateHourlyRate_attendance str2num emp =
     (let base = att_base str2num emp in
      if \<not> truthy_num base then Fin 0
      else
        let daily = att_daily str2num emp;
            dailyRate = js_div base (Fin 30)
        in js_div dailyRate daily)"

text \<open>
  clock-in-api.js: \<open>base = emp?.baseSalary || 0\<close> and
  \<open>standard = emp?.standardWorkweekHours || 40\<close> keep the value as it is; the
  divisions convert it.
\<close>

definition api_base :: "raw_employee option \<Rightarrow> jsval" where
  "api_base emp = (let v = opt_baseSalary emp in if truthy v then v else JNum (Fin 0))"

definition api_standard :: "raw_employee option \<Rightarrow> jsval" where
  "api_standard emp =
     (let v = opt_standardWorkweekHours emp in if truthy v then v else JNum (Fin 40))"

definition api_daily :: "(string \<Rightarrow> jsnum) \<Rightarrow> raw_employee option \<Rightarrow> jsnum" where
  "api_daily str2num emp = js_div (ToNumber str2num (api_standard emp)) (Fin 7)"

definition calculateHourlyRate_clockin :: "(string \<Rightarrow> jsnum) \<Rightarrow> raw_employee option \<Rightarrow> jsnum" where
  "calculateHourlyRate_clockin str2num emp =
     (let base = api_base emp in
      if \<not> truthy base then Fin 0
      else
        let daily = api_daily str2num emp;
            dailyRate = js_div (ToNumber str2num base) (Fin 30)
        in js_div dailyRate daily)"




text \<open>The employee with number fields as a raw object.\<close>

definition raw_of :: "employee \<Rightarrow> raw_employee" where
  "raw_of e = \<lparr>raw_baseSalary = JNum (Fin (baseSalary e)),
              raw_standardWorkweekHours = JNum (Fin (standardWorkweekHours e))\<rparr>"

section \<open>Daily hours\<close>

subsection \<open>The attendance forms (attendance.js)\<close>

text \<open>
  A time field of a form holds the empty string or \<open>HH:MM\<close>; it is modelled by
  nothing or by the two numbers \<open>split(':').map(Number)\<close> makes of it. The same
  lines compute \<open>totalMinutes\<close> in \<open>handleBatchAddSubmit\<close>,
  \<open>handleAddAttendanceSubmit\<close> and \<open>calculateAddAttendanceSummary\<close>:
  a session counts when both of its fields are filled in, and it counts the difference
  of the two times as it is.
\<close>

type_synonym time_input = "(int \<times> int) option"

definition session_minutes :: "time_input \<Rightarrow> time_input \<Rightarrow> rat" where
  "session_minutes timeIn timeOut =
     (case (timeIn, timeOut) of
        (Some (inH, inM), Some (outH, outM)) \<Rightarrow> of_int ((outH * 60 + outM) - (inH * 60 + inM))
      | _ \<Rightarrow> 0)"

definition form_totalMinutes :: "time_input \<Rightarrow> time_input \<Rightarrow> time_input \<Rightarrow> time_input \<Rightarrow> rat" where
  "form_totalMinutes timeInAM timeOutAM timeInPM timeOutPM =
     0 + session_minutes timeInAM timeOutAM + session_minutes timeInPM timeOutPM"

definition has_session :: "time_input \<Rightarrow> time_input \<Rightarrow> bool" where
  "has_session timeIn timeOut = (timeIn \<noteq> None \<and> timeOut \<noteq> None)"

text \<open>\<open>employee?.standardWorkweekHours || 40\<close>.\<close>

definition standardWorkweekHours_or_40 :: "employee option \<Rightarrow> rat" where
  "standardWorkweekHours_or_40 employee =
     (case employee of
        None \<Rightarrow> 40
      | Some e \<Rightarrow> if standardWorkweekHours e = 0 then 40 else standardWorkweekHours e)"

definition employee_span :: "employee option \<Rightarrow> rat option" where
  "employee_span employee =
     scheduleSpanOf (case employee of None \<Rightarrow> None | Some e \<Rightarrow> coreWorkingHours e)"

text \<open>
  The lunch rule of \<open>handleBatchAddSubmit\<close> and \<open>calculateAddAttendanceSummary\<close>:
  the minutes added to \<open>totalMinutes\<close>. \<open>scheduleSpan &&\<close> is false for null
  and for 0.
\<close>

definition lunch_minutes :: "bool \<Rightarrow> bool \<Rightarrow> rat option \<Rightarrow> rat \<Rightarrow> rat \<Rightarrow> rat" where
  "lunch_minutes hasAM hasPM scheduleSpan dailyStandardHours actualWorkHours =
     (if hasAM \<and> hasPM \<and>
         (case scheduleSpan of
            None \<Rightarrow> False
          | Some sp \<Rightarrow> sp \<noteq> 0 \<and> sp \<ge> dailyStandardHours \<and> actualWorkHours < dailyStandardHours)
      then 60 else 0)"

text \<open>The attendance object the forms hand to \<open>add\<close>.\<close>

record attendanceData =
  employeeId :: string
  date :: string
  timeInAM :: time_input
  timeOutAM :: time_input
  timeInPM :: time_input
  timeOutPM :: time_input
  remarks :: string
  isDoublePay :: bool
  totalHoursWorked :: rat
  overtimeHours :: rat
  overTimePay :: rat
  lunchBreak :: rat
  leaveType :: string

text \<open>
  One turn of the loop of \<open>handleBatchAddSubmit\<close>: the object built for one date.
  The batch object has no \<open>leaveType\<close> property, for which \<open>mapToAirtableFields\<close>
  writes the empty string.
\<close>

definition batch_attendanceData ::
  "employee option \<Rightarrow> string \<Rightarrow> time_input \<Rightarrow> time_input \<Rightarrow> time_input \<Rightarrow> time_input \<Rightarrow>
   bool \<Rightarrow> string \<Rightarrow> nat \<Rightarrow> attendanceData" where
  "batch_attendanceData employee employee_id tInAM tOutAM tInPM tOutPM doublePaySunday dateStr dayOfWeek =
     (let standardWorkweekHours = standardWorkweekHours_or_40 employee;
          isFixed = isFixed employee;
          dailyStandardHours = standardWorkweekHours / 7;
          totalMinutes = form_totalMinutes tInAM tOutAM tInPM tOutPM;
          hasAM = has_session tInAM tOutAM;
          hasPM = has_session tInPM tOutPM;
          actualWorkHours = totalMinutes / 60;
          scheduleSpan = employee_span employee;
          totalMinutes1 = totalMinutes +
             lunch_minutes hasAM hasPM scheduleSpan dailyStandardHours actualWorkHours;
          totalHoursWorked = totalMinutes1 / 60;
          overtimeHours = (if isFixed then 0 else max 0 (totalHoursWorked - dailyStandardHours));
          overTimePay = (if \<not> isFixed \<and> overtimeHours > 0
                         then overtimeHours * calculateHourlyRate employee * (5 / 4) else 0);
          isSunday = (dayOfWeek = 0);
          isDoublePay = (if isFixed then False else (doublePaySunday \<and> isSunday));
          isAbsent = (\<not> hasAM \<and> \<not> hasPM);
          isHalfDay = ((hasAM \<and> \<not> hasPM) \<or> (\<not> hasAM \<and> hasPM))
      in \<lparr>employeeId = employee_id, date = dateStr,
          timeInAM = tInAM, timeOutAM = tOutAM, timeInPM = tInPM, timeOutPM = tOutPM,
          remarks = (if isDoublePay then '' (Double Pay)'' else []),
          isDoublePay = isDoublePay,
          totalHoursWorked = totalHoursWorked,
          overtimeHours = overtimeHours,
          overTimePay = overTimePay,
          lunchBreak = (if \<not> isHalfDay \<and> \<not> isAbsent then 60 else 0),
          leaveType = []\<rparr>)"

text \<open>
  \<open>handleAddAttendanceSubmit\<close> after its duplicate check: the object of the single
  add. No minutes are added here; the daily standard is lowered by one hour when the
  schedule span equals it and exceeds 8.
\<close>

definition single_dailyStandardHours :: "employee option \<Rightarrow> rat" where
  "single_dailyStandardHours employee =
     (let scheduleSpan = employee_span employee;
          dailyFromWeekly = standardWorkweekHours_or_40 employee / 7
      in if (case scheduleSpan of None \<Rightarrow> False | Some sp \<Rightarrow> sp = dailyFromWeekly \<and> sp > 8)
         then dailyFromWeekly - 1 else dailyFromWeekly)"

definition single_attendanceData ::
  "employee option \<Rightarrow> string \<Rightarrow> string \<Rightarrow> time_input \<Rightarrow> time_input \<Rightarrow> time_input \<Rightarrow> time_input \<Rightarrow>
   string \<Rightarrow> string \<Rightarrow> bool \<Rightarrow> attendanceData" where
  "single_attendanceData employee employee_id dateStr tInAM tOutAM tInPM tOutPM remarksStr leaveTypeStr
     doublePayChecked =
     (let totalMinutes = form_totalMinutes tInAM tOutAM tInPM tOutPM;
          hasAM = has_session tInAM tOutAM;
          hasPM = has_session tInPM tOutPM;
          dailyStandardHours = single_dailyStandardHours employee;
          isAbsent = ((\<not> hasAM \<and> \<not> hasPM) \<or> js_includes (toLowerCase remarksStr) ''absent'');
          isHalfDay = ((hasAM \<and> \<not> hasPM) \<or> (\<not> hasAM \<and> hasPM) \<or> (\<not> isAbsent \<and> totalMinutes < 240));
          totalHoursWorked = totalMinutes / 60;
          isFixed = isFixed employee;
          overtimeHours = (if isFixed then 0 else max 0 (totalHoursWorked - dailyStandardHours));
          overTimePay = (if \<not> isFixed \<and> overtimeHours > 0
                         then overtimeHours * calculateHourlyRate employee * (5 / 4) else 0);
          isDoublePay = (if isFixed then False else doublePayChecked)
      in \<lparr>employeeId = employee_id, date = dateStr,
          timeInAM = tInAM, timeOutAM = tOutAM, timeInPM = tInPM, timeOutPM = tOutPM,
          remarks = remarksStr,
          isDoublePay = isDoublePay,
          totalHoursWorked = totalHoursWorked,
          overtimeHours = overtimeHours,
          overTimePay = overTimePay,
          lunchBreak = (if \<not> isHalfDay \<and> \<not> isAbsent then 60 else 0),
          leaveType = (if leaveTypeStr = [] then ''None'' else leaveTypeStr)\<rparr>)"

text \<open>
  \<open>calculateAddAttendanceSummary\<close>, the live summary of the add form: the three
  figures it displays.
\<close>

record add_summary =
  sum_totalHoursWorked :: rat
  sum_overtimeHours :: rat
  sum_overTimePay :: rat

definition calculateAddAttendanceSummary ::
  "employee option \<Rightarrow> time_input \<Rightarrow> time_input \<Rightarrow> time_input \<Rightarrow> time_input \<Rightarrow> add_summary" where
  "calculateAddAttendanceSummary employee tInAM tOutAM tInPM tOutPM =
     (let totalMinutes = form_totalMinutes tInAM tOutAM tInPM tOutPM;
          hasAM = has_session tInAM tOutAM;
          hasPM = has_session tInPM tOutPM;
          standardWorkweekHours = standardWorkweekHours_or_40 employee;
          dailyStandardHours = standardWorkweekHours / 7;
          actualWorkHours = totalMinutes / 60;
          scheduleSpan = employee_span employee;
          totalMinutes1 = totalMinutes +
             lunch_minutes hasAM hasPM scheduleSpan dailyStandardHours actualWorkHours;
          totalHoursWorked = totalMinutes1 / 60;
          isFixed = isFixed employee;
          overtimeHours = (if isFixed then 0 else max 0 (totalHoursWorked - dailyStandardHours));
          baseSalary = (case employee of None \<Rightarrow> 0 | Some e \<Rightarrow> baseSalary e);
          hourlyRate = (if baseSalary \<noteq> 0 \<and> dailyStandardHours > 0
                        then (baseSalary / 30) / dailyStandardHours else 0);
          overtimeRate = hourlyRate * (5 / 4);
          overTimePay = (if \<not> isFixed \<and> overtimeHours > 0 then overtimeHours * overtimeRate else 0)
      in \<lparr>sum_totalHoursWorked = totalHoursWorked,
          sum_overtimeHours = overtimeHours,
          sum_overTimePay = overTimePay\<rparr>)"

subsection \<open>The clock (clock-in-api.js)\<close>

text \<open>
  \<open>parseTimeToMinutes\<close>: the two patterns are anchored at both ends. A missing field
  and the empty string are both falsy.
\<close>

definition re_time12 :: "string \<Rightarrow> (string \<times> string \<times> string) option" where
  "re_time12 s =
     (case time_with 2 s of
        Some (h, m, p, []) \<Rightarrow> Some (h, m, p)
      | _ \<Rightarrow> (case time_with 1 s of Some (h, m, p, []) \<Rightarrow> Some (h, m, p) | _ \<Rightarrow> None))"

definition hhmm_with :: "nat \<Rightarrow> string \<Rightarrow> (string \<times> string) option" where
  "hhmm_with n s =
     (case digits_prefix n s of
        None \<Rightarrow> None
      | Some (h, r1) \<Rightarrow>
          (case r1 of
             [] \<Rightarrow> None
           | c # r2 \<Rightarrow>
               if c \<noteq> CHR '':'' then None
               else (case digits_prefix 2 r2 of
                       Some (m, []) \<Rightarrow> Some (h, m)
                     | _ \<Rightarrow> None)))"

definition re_time24 :: "string \<Rightarrow> (string \<times> string) option" where
  "re_time24 s = (case hhmm_with 2 s of Some g \<Rightarrow> Some g | None \<Rightarrow> hhmm_with 1 s)"

definition parseTimeToMinutes :: "string \<Rightarrow> nat option" where
  "parseTimeToMinutes timeStr =
     (if timeStr = [] then None
      else (case re_time12 timeStr of
              Some (h, m, p) \<Rightarrow>
                (let hours = parseInt h;
                     minutes = parseInt m;
                     period = toUpperCase p;
                     hours1 = (if period = ''AM'' \<and> hours = 12 then 0
                               else if period = ''PM'' \<and> hours \<noteq> 12 then hours + 12
                               else hours)
                 in Some (hours1 * 60 + minutes))
            | None \<Rightarrow>
                (case re_time24 timeStr of
                   Some (h, m) \<Rightarrow> Some (parseInt h * 60 + parseInt m)
                 | None \<Rightarrow> None)))"

text \<open>
  The fields of a record of the Attendances table. The three fields
  \<open>calculateOvertimeFields\<close> computes are assigned into them (\<open>Object.assign\<close>).
  A field the table does not hold reads as the empty string, 0 or false.
\<close>

record attendance_fields = overtime_fields +
  EmployeeId :: string
  Date :: string
  TimeInAM :: string
  TimeOutAM :: string
  TimeInPM :: string
  TimeOutPM :: string
  LateMinutes :: rat
  IsDoublePay :: bool
  LeaveType :: string
  Remarks :: string
  Status :: string

definition clock_session :: "string \<Rightarrow> string \<Rightarrow> rat" where
  "clock_session timeIn timeOut =
     (case (parseTimeToMinutes timeIn, parseTimeToMinutes timeOut) of
        (Some inM, Some outM) \<Rightarrow> if outM > inM then rat_of_nat outM - rat_of_nat inM else 0
      | _ \<Rightarrow> 0)"

definition calculateTotalHours :: "'a attendance_fields_scheme \<Rightarrow> rat" where
  "calculateTotalHours record =
     (let totalMinutes = 0 + clock_session (TimeInAM record) (TimeOutAM record)
                           + clock_session (TimeInPM record) (TimeOutPM record)
      in totalMinutes / 60)"

section \<open>Attendance status\<close>

text \<open>
  The labels the three copies of the classification give. The payroll breakdown calls
  \<open>Undertime\<close> what the attendance pages call \<open>Short Hours\<close>.
\<close>

datatype status =
  OnLeave | InProgress | Absent | Invalid | ShortHours | HalfDay | Overtime | Present | Undertime

definition is_filled :: "string \<Rightarrow> bool" where
  "is_filled s = (s \<noteq> [])"

text \<open>
  \<open>getAttendanceStatusBadge\<close> of the clock page: the label of the badge.
  \<open>isToday\<close> is the comparison of the record's date with the current date.
\<close>

definition getAttendanceStatusBadge :: "attendance_fields \<Rightarrow> bool \<Rightarrow> employee option \<Rightarrow> status" where
  "getAttendanceStatusBadge flds isToday employee =
     (let hasAM = (is_filled (TimeInAM flds) \<and> is_filled (TimeOutAM flds));
          hasPM = (is_filled (TimeInPM flds) \<and> is_filled (TimeOutPM flds));
          totalHours = TotalHoursWorked flds;
          dailyStd = standardWorkweekHours_or_40 employee / 7;
          tol = 1 / 100;
          minHoursForHalfDay = dailyStd / 2 * (3 / 4);
          minHoursForValid = 1 / 2
      in if LeaveType flds \<noteq> [] \<and> LeaveType flds \<noteq> ''None'' then OnLeave
         else if \<not> hasAM \<and> \<not> hasPM then
           (if isToday \<and> (is_filled (TimeInAM flds) \<or> is_filled (TimeInPM flds)) then InProgress
            else Absent)
         else if (hasAM \<and> \<not> hasPM) \<or> (\<not> hasAM \<and> hasPM) then
           (if isToday then InProgress
            else if totalHours < minHoursForValid then Invalid
            else if totalHours < minHoursForHalfDay then ShortHours
            else HalfDay)
         else if totalHours < dailyStd - tol then ShortHours
         else if totalHours > dailyStd + tol then Overtime
         else Present)"

text \<open>
  The status \<open>calculateMonthlySummary\<close> gives a record that is not on leave (a record
  on leave is counted before any status is computed: \<open>None\<close>).
\<close>

definition monthly_status :: "employee option \<Rightarrow> attendance_fields \<Rightarrow> status option" where
  "monthly_status emp r =
     (let dailyStd = standardWorkweekHours_or_40 emp / 7;
          tol = 1 / 100;
          total = TotalHoursWorked r
      in if LeaveType r \<noteq> [] \<and> LeaveType r \<noteq> ''None'' then None
         else
           let hasAM = (is_filled (TimeInAM r) \<and> is_filled (TimeOutAM r));
               hasPM = (is_filled (TimeInPM r) \<and> is_filled (TimeOutPM r));
               minHoursForHalfDay = dailyStd / 2 * (3 / 4);
               minHoursForValid = 1 / 2
           in Some (if \<not> hasAM \<and> \<not> hasPM then Absent
                    else if (hasAM \<and> \<not> hasPM) \<or> (\<not> hasAM \<and> hasPM) then
                      (if total < minHoursForValid then Invalid
                       else if total < minHoursForHalfDay then ShortHours
                       else HalfDay)
                    else if total < dailyStd - tol then ShortHours
                    else if total > dailyStd + tol then Overtime
                    else Present))"

section \<open>Period aggregator (loadBreakdownAttendance)\<close>




definition breakdown_span :: "employee option \<Rightarrow> rat option" where
  "breakdown_span empData =
     scheduleSpanOf (Some (case empData of
                             None \<Rightarrow> []
                           | Some e \<Rightarrow> (case coreWorkingHours e of None \<Rightarrow> [] | Some s \<Rightarrow> s)))"

definition hasLunchAdjustment :: "employee option \<Rightarrow> bool" where
  "hasLunchAdjustment empData =
     (let dailyFromWeekly = standardWorkweekHours_or_40 empData / 7 in
      case breakdown_span empData of
        None \<Rightarrow> False
      | Some scheduleSpan \<Rightarrow> scheduleSpan = dailyFromWeekly \<and> scheduleSpan > 8)"

definition breakdown_dailyStandardHours :: "employee option \<Rightarrow> rat" where
  "breakdown_dailyStandardHours empData =
     (let dailyFromWeekly = standardWorkweekHours_or_40 empData / 7 in
      if hasLunchAdjustment empData then dailyFromWeekly - 1 else dailyFromWeekly)"


text \<open>The status of one record in the loop of \<open>loadBreakdownAttendance\<close>.\<close>

definition breakdown_status :: "rat \<Rightarrow> attendance_fields \<Rightarrow> status" where
  "breakdown_status dailyStandardHours flds =
     (let totalHoursWorked = TotalHoursWorked flds;
          hasAM = (is_filled (TimeInAM flds) \<and> is_filled (TimeOutAM flds));
          hasPM = (is_filled (TimeInPM flds) \<and> is_filled (TimeOutPM flds));
          isAbsent = (\<not> hasAM \<and> \<not> hasPM);
          isHalfDay = ((hasAM \<and> \<not> hasPM) \<or> (\<not> hasAM \<and> hasPM));
          minHoursForHalfDay = dailyStandardHours / 2 * (3 / 4);
          minHoursForValid = 1 / 2;
          tol = 1 / 100
      in if isAbsent then Absent
         else if isHalfDay then
           (if totalHoursWorked < minHoursForValid then Invalid
            else if totalHoursWorked < minHoursForHalfDay then Undertime
            else HalfDay)
         else
           (if totalHoursWorked < 0 then Invalid
            else if totalHoursWorked < dailyStandardHours - tol then Undertime
            else if totalHoursWorked > dailyStandardHours + tol then Overtime
            else Present))"






subsection \<open>Dates\<close>









subsection \<open>Perfect attendance bonus\<close>







section \<open>Deduction reconciler\<close>

text \<open>
  The state the payroll breakdown keeps between its handlers: the figures
  \<open>loadBreakdownAttendance\<close> stored (\<open>calculatedData\<close>, absent before the first
  load), the salary advance (\<open>currentAdvanceDeductionData\<close>), the inputs
  \<open>excludeAllDeductions\<close> and \<open>skipAdvanceDeduction\<close> of the page, and what the
  page shows: the net pay and the warning that the advance makes it negative.
\<close>

record calculated_data =
  totalEarnings :: rat
  sssContribution :: rat
  philHealthContribution :: rat
  pagIbigContribution :: rat
  withholdingTax :: rat
  sssEmployer :: rat
  philHealthEmployer :: rat
  pagIbigEmployer :: rat
  otherDeductions :: rat
  lateDed :: rat
  absentDed :: rat
  advanceDeduction :: rat
  totalDeductions :: rat
  netPay :: rat
  excludeAllDeductions :: bool
  effectiveGovtContributionsTotal :: rat

record advance_data =
  outstandingBalance :: rat
  deductionAmount :: rat

record breakdown_state =
  calculatedData :: "calculated_data option"
  currentAdvanceDeductionData :: advance_data
  excludeAllDeductions_input :: bool
  skipAdvanceDeduction_value :: bool
  skipAdvanceDeduction_checked :: bool
  shown_netPay :: rat
  shown_advanceWarning :: bool

text \<open>\<open>currentBreakdownContext.calculatedData?.f || 0\<close>.\<close>

definition cd_get :: "(calculated_data \<Rightarrow> rat) \<Rightarrow> breakdown_state \<Rightarrow> rat" where
  "cd_get f st = (case calculatedData st of None \<Rightarrow> 0 | Some cd \<Rightarrow> f cd)"

definition updateBreakdownTotals :: "breakdown_state \<Rightarrow> breakdown_state" where
  "updateBreakdownTotals st =
     (let advanceDeduction = deductionAmount (currentAdvanceDeductionData st);
          excludeAll = excludeAllDeductions_input st;
          sss = (if excludeAll then 0 else cd_get sssContribution st);
          philHealth = (if excludeAll then 0 else cd_get philHealthContribution st);
          pagIbig = (if excludeAll then 0 else cd_get pagIbigContribution st);
          tax = (if excludeAll then 0 else cd_get withholdingTax st);
          govtContributionsTotal = sss + philHealth + pagIbig + tax;
          totalEarnings = cd_get totalEarnings st;
          otherDeductions = cd_get otherDeductions st;
          totalDeductions = govtContributionsTotal + advanceDeduction + otherDeductions;
          netPay = totalEarnings - totalDeductions
      in st\<lparr>shown_netPay := netPay,
            calculatedData :=
              (case calculatedData st of
                 None \<Rightarrow> None
               | Some cd \<Rightarrow>
                   Some (cd\<lparr>advanceDeduction := advanceDeduction,
                             totalDeductions := totalDeductions,
                             netPay := netPay,
                             excludeAllDeductions := excludeAll,
                             effectiveGovtContributionsTotal := govtContributionsTotal\<rparr>))\<rparr>)"

definition checkAdvanceWarning :: "breakdown_state \<Rightarrow> breakdown_state" where
  "checkAdvanceWarning st =
     (let govtTotal = cd_get sssContribution st + cd_get philHealthContribution st +
                      cd_get pagIbigContribution st + cd_get withholdingTax st;
          advanceDeduction = deductionAmount (currentAdvanceDeductionData st);
          netPay = cd_get totalEarnings st - govtTotal - advanceDeduction
      in st\<lparr>shown_advanceWarning := (netPay < 0)\<rparr>)"

text \<open>\<open>setAdvanceDeduction(shouldDeduct)\<close>: true deducts the full balance, false skips.\<close>

definition setAdvanceDeduction :: "bool \<Rightarrow> breakdown_state \<Rightarrow> breakdown_state" where
  "setAdvanceDeduction shouldDeduct st =
     (let adv = currentAdvanceDeductionData st;
          st1 = (if shouldDeduct
                 then st\<lparr>currentAdvanceDeductionData := adv\<lparr>deductionAmount := outstandingBalance adv\<rparr>,
                          skipAdvanceDeduction_value := False\<rparr>
                 else st\<lparr>currentAdvanceDeductionData := adv\<lparr>deductionAmount := 0\<rparr>,
                          skipAdvanceDeduction_value := True\<rparr>)
      in checkAdvanceWarning (updateBreakdownTotals st1))"

text \<open>
  \<open>loadSalaryAdvancesForBreakdown\<close> once the ledger has answered with the sum of the
  advances of the period: a positive sum is deducted in full by default.
\<close>

definition loadSalaryAdvances :: "rat \<Rightarrow> breakdown_state \<Rightarrow> breakdown_state" where
  "loadSalaryAdvances outstanding st =
     (if outstanding > 0
      then checkAdvanceWarning (updateBreakdownTotals
             (setAdvanceDeduction True
                (st\<lparr>currentAdvanceDeductionData :=
                      \<lparr>outstandingBalance = outstanding, deductionAmount = outstanding\<rparr>\<rparr>)))
      else st\<lparr>currentAdvanceDeductionData := \<lparr>outstandingBalance = 0, deductionAmount = 0\<rparr>\<rparr>)"

text \<open>
  \<open>saveBreakdownRecord\<close>. The payroll item is what it hands to
  \<open>createPayrollItemRecord\<close>: its money fields; the others (identifiers, hours,
  allowance, dates, the daily breakdown) are read from the period and the employee and
  none of them from the advance state. When an advance is outstanding and
  nothing is deducted, it asks for confirmation, naming the outstanding amount;
  \<open>proceed\<close> is the user's answer.
\<close>

record payroll_item =
  grossPay :: rat
  item_netPay :: rat
  item_sssContribution :: rat
  item_philHealthContribution :: rat
  item_pagIbigContribution :: rat
  item_withholdingTax :: rat
  lateDeductions :: rat
  absentDeductions :: rat
  salaryAdvanceDeduction :: rat
  item_otherDeductions :: rat
  item_totalDeductions :: rat

datatype save_result =
  NotLoaded
| Cancelled rat
| Submitted "rat option" payroll_item

definition saveBreakdownRecord :: "bool \<Rightarrow> breakdown_state \<Rightarrow> breakdown_state \<times> save_result" where
  "saveBreakdownRecord proceed st =
     (case calculatedData st of
        None \<Rightarrow> (st, NotLoaded)
      | Some data \<Rightarrow>
          let adv0 = currentAdvanceDeductionData st;
              adv = (if skipAdvanceDeduction_checked st then adv0\<lparr>deductionAmount := 0\<rparr> else adv0);
              st1 = st\<lparr>currentAdvanceDeductionData := adv\<rparr>;
              outstandingAdvance = outstandingBalance adv;
              plannedDeduction = deductionAmount adv;
              warned = (outstandingAdvance > 0 \<and> plannedDeduction = 0)
          in if warned \<and> \<not> proceed then (st1, Cancelled outstandingAdvance)
             else
               let excludeAll = excludeAllDeductions data;
                   sss = (if excludeAll then 0 else sssContribution data);
                   philHealth = (if excludeAll then 0 else philHealthContribution data);
                   pagIbig = (if excludeAll then 0 else pagIbigContribution data);
                   tax = (if excludeAll then 0 else withholdingTax data);
                   govtContributionsTotal = sss + philHealth + pagIbig + tax;
                   gross = totalEarnings data;
                   advanceDeduction = deductionAmount adv;
                   other = otherDeductions data;
                   totalDeductions = govtContributionsTotal + advanceDeduction + other +
                                     lateDed data + absentDed data;
                   net = gross - totalDeductions
               in (st1,
                   Submitted (if warned then Some outstandingAdvance else None)
                     \<lparr>grossPay = gross, item_netPay = net,
                      item_sssContribution = sss, item_philHealthContribution = philHealth,
                      item_pagIbigContribution = pagIbig, item_withholdingTax = tax,
                      lateDeductions = lateDed data, absentDeductions = absentDed data,
                      salaryAdvanceDeduction = advanceDeduction,
                      item_otherDeductions = 0,
                      item_totalDeductions = totalDeductions\<rparr>))"

text \<open>The payroll item of a save, when one is handed on.\<close>

definition submitted_item :: "save_result \<Rightarrow> payroll_item option" where
  "submitted_item res = (case res of Submitted warned item \<Rightarrow> Some item | _ \<Rightarrow> None)"

section \<open>Creating attendance records\<close>

text \<open>
  The Attendances table is a remote store. It is modelled by the rows it holds, in the
  order of their creation: a POST adds a row with a new id, a PATCH assigns the given
  fields of one row, and a query with a formula on employee and date returns the rows
  that match. Dates are the normalised \<open>YYYY-MM-DD\<close> strings both sides of the
  formula are brought to.
\<close>

record table_row =
  row_id :: nat
  row_fields :: attendance_fields

type_synonym attendance_table = "table_row list"

definition fresh_id :: "attendance_table \<Rightarrow> nat" where
  "fresh_id table = Suc (foldl max 0 (map row_id table))"

definition post_row :: "attendance_table \<Rightarrow> attendance_fields \<Rightarrow> attendance_table" where
  "post_row table flds = table @ [\<lparr>row_id = fresh_id table, row_fields = flds\<rparr>]"

definition matching_rows :: "attendance_table \<Rightarrow> string \<Rightarrow> string \<Rightarrow> table_row list" where
  "matching_rows table employee_id dateStr =
     filter (\<lambda>r. EmployeeId (row_fields r) = employee_id \<and> Date (row_fields r) = dateStr) table"



text \<open>The string of a time field: \<open>HH:MM\<close> with two digits each, or the empty string.\<close>

definition two_digits :: "int \<Rightarrow> string" where
  "two_digits n = [char_of (48 + n div 10), char_of (48 + n mod 10)]"

definition time_string :: "time_input \<Rightarrow> string" where
  "time_string t = (case t of None \<Rightarrow> [] | Some (h, m) \<Rightarrow> two_digits h @ '':'' @ two_digits m)"

definition mapToAirtableFields :: "attendanceData \<Rightarrow> attendance_fields" where
  "mapToAirtableFields obj =
     \<lparr>TotalHoursWorked = totalHoursWorked obj,
      OvertimeHours = overtimeHours obj,
      OverTimePay = overTimePay obj,
      EmployeeId = employeeId obj,
      Date = date obj,
      TimeInAM = time_string (timeInAM obj),
      TimeOutAM = time_string (timeOutAM obj),
      TimeInPM = time_string (timeInPM obj),
      TimeOutPM = time_string (timeOutPM obj),
      LateMinutes = 0,
      IsDoublePay = isDoublePay obj,
      LeaveType = (if leaveType obj \<noteq> [] \<and> leaveType obj \<noteq> ''None'' then leaveType obj else []),
      Remarks = remarks obj,
      Status = []\<rparr>"

definition add :: "attendance_table \<Rightarrow> attendanceData \<Rightarrow> attendance_table" where
  "add table attendance = post_row table (mapToAirtableFields attendance)"

subsection \<open>Single add\<close>



subsection \<open>Batch add\<close>




subsection \<open>The clock\<close>

datatype action = ActTimeInAM | ActTimeOutAM | ActTimeInPM | ActTimeOutPM


fun set_slot :: "action \<Rightarrow> string \<Rightarrow> attendance_fields \<Rightarrow> attendance_fields" where
  "set_slot ActTimeInAM v f = f\<lparr>TimeInAM := v\<rparr>"
| "set_slot ActTimeOutAM v f = f\<lparr>TimeOutAM := v\<rparr>"
| "set_slot ActTimeInPM v f = f\<lparr>TimeInPM := v\<rparr>"
| "set_slot ActTimeOutPM v f = f\<lparr>TimeOutPM := v\<rparr>"


definition empty_fields :: attendance_fields where
  "empty_fields =
     \<lparr>TotalHoursWorked = 0, OvertimeHours = 0, OverTimePay = 0, EmployeeId = [], Date = [],
      TimeInAM = [], TimeOutAM = [], TimeInPM = [], TimeOutPM = [], LateMinutes = 0,
      IsDoublePay = False, LeaveType = [], Remarks = [], Status = []\<rparr>"


definition findTodayRecord :: "attendance_table \<Rightarrow> string \<Rightarrow> string \<Rightarrow> table_row option" where
  "findTodayRecord table employee_id dateStr =
     (case matching_rows table employee_id dateStr of [] \<Rightarrow> None | r # rs \<Rightarrow> Some r)"


text \<open>\<open>updateAttendanceRecord\<close>: the PATCH assigns the time and, on a clock-out with
  hours, the overtime fields, to the row with the given id.\<close>

definition patch_row :: "attendance_table \<Rightarrow> nat \<Rightarrow> (attendance_fields \<Rightarrow> attendance_fields) \<Rightarrow> attendance_table" where
  "patch_row table rid upd =
     map (\<lambda>r. if row_id r = rid then r\<lparr>row_fields := upd (row_fields r)\<rparr> else r) table"


datatype clock_outcome = DuplicateWarning | Updated | Created


definition updateAttendanceRecord_earlier ::
  "attendance_table \<Rightarrow> table_row \<Rightarrow> action \<Rightarrow> string \<Rightarrow> attendance_table" where
  "updateAttendanceRecord_earlier table existing actionType timeValue =
     patch_row table (row_id existing) (set_slot actionType timeValue)"

definition saveClockAction_earlier ::
  "attendance_table \<Rightarrow> string \<Rightarrow> string \<Rightarrow> action \<Rightarrow> string \<Rightarrow>
   attendance_table \<times> clock_outcome" where
  "saveClockAction_earlier table employee_id dateStr actionType timeValue =
     (case findTodayRecord table employee_id dateStr of
        Some existingRecord \<Rightarrow>
          (updateAttendanceRecord_earlier table existingRecord actionType timeValue, Updated)
      | None \<Rightarrow>
          (post_row table
             (set_slot actionType timeValue (empty_fields\<lparr>EmployeeId := employee_id, Date := dateStr\<rparr>)),
           Created))"


section \<open>The rules the specification states\<close>

text \<open>
  The lunch rule in the words of the specification: both sessions present, the schedule
  span known and at least the daily standard, and the raw hours below the daily standard.
\<close>

definition claimed_lunch_condition :: "bool \<Rightarrow> bool \<Rightarrow> rat option \<Rightarrow> rat \<Rightarrow> rat \<Rightarrow> bool" where
  "claimed_lunch_condition hasAM hasPM scheduleSpan dailyStandardHours rawMinutes =
     (hasAM \<and> hasPM \<and>
      (case scheduleSpan of
         None \<Rightarrow> False
       | Some sp \<Rightarrow> sp \<ge> dailyStandardHours \<and> rawMinutes / 60 < dailyStandardHours))"

text \<open>
  The status of a day with exactly one complete session, in the words of the
  specification, from the daily standard and the hours worked.
\<close>

definition claimed_half_day_status :: "rat \<Rightarrow> rat \<Rightarrow> status" where
  "claimed_half_day_status dailyStandardHours hoursWorked =
     (if hoursWorked < 1 / 2 then Invalid
      else if hoursWorked < dailyStandardHours / 2 * (3 / 4) then ShortHours
      else HalfDay)"

definition one_session :: "attendance_fields \<Rightarrow> bool" where
  "one_session flds =
     (let hasAM = (is_filled (TimeInAM flds) \<and> is_filled (TimeOutAM flds));
          hasPM = (is_filled (TimeInPM flds) \<and> is_filled (TimeOutPM flds))
      in (hasAM \<and> \<not> hasPM) \<or> (\<not> hasAM \<and> hasPM))"

definition no_leave :: "attendance_fields \<Rightarrow> bool" where
  "no_leave flds = (LeaveType flds = [] \<or> LeaveType flds = ''None'')"



section \<open>The schedule span resolver returns null on every unparsable string\<close>












text \<open>The typed resolver is the resolver at a string or a missing field.\<close>

lemma scheduleSpanOf_eq:
  "getScheduleSpanHours (case c of None \<Rightarrow> JUndefined | Some s \<Rightarrow> JStr s) = Inr (scheduleSpanOf c)"
  by (cases c) (simp_all add: getScheduleSpanHours_def scheduleSpanOf_def)

text \<open>A truthy value that is not a string makes the resolver throw.\<close>

lemma getScheduleSpanHours_number_throws:
  "getScheduleSpanHours (JNum (Fin 5)) = Inl TypeError"
  by (simp add: getScheduleSpanHours_def)




section \<open>Fixed-rate employees earn no overtime\<close>



text \<open>The test of clock-in-api.js is the test of attendance.js without the fallback.\<close>

lemma isFixedRate_isFixed: "isFixedRate (Some e) \<Longrightarrow> isFixed (Some e)"
  by (auto simp: isFixedRate_def isFixed_def Let_def toLowerCase_def)

text \<open>
  Claim C1, as the code has it. The code calls an employee fixed when the rate type
  contains \<open>fixed\<close>, \<open>monthly\<close> or \<open>salary\<close>, or the employment type contains
  \<open>fixed\<close>, in any case of the letters. For every such employee, every total of hours
  and every combination of punches, \<open>calculateOvertimeFields\<close>, the batch add, the
  single add and the live summary give overtime hours 0 and overtime pay 0.
\<close>

theorem fixed_no_overtime:
  assumes "isFixedRate (Some e)"
  shows "OvertimeHours (calculateOvertimeFields totalHours (Inr (Some e))) = 0 \<and>
         OverTimePay (calculateOvertimeFields totalHours (Inr (Some e))) = 0 \<and>
         overtimeHours (batch_attendanceData (Some e) eid a b c d dps ds dow) = 0 \<and>
         overTimePay (batch_attendanceData (Some e) eid a b c d dps ds dow) = 0 \<and>
         overtimeHours (single_attendanceData (Some e) eid ds a b c d rm lt dp) = 0 \<and>
         overTimePay (single_attendanceData (Some e) eid ds a b c d rm lt dp) = 0 \<and>
         sum_overtimeHours (calculateAddAttendanceSummary (Some e) a b c d) = 0 \<and>
         sum_overTimePay (calculateAddAttendanceSummary (Some e) a b c d) = 0"
proof -
  have f: "isFixed (Some e)"
    using assms by (rule isFixedRate_isFixed)
  have api: "OvertimeHours (calculateOvertimeFields totalHours (Inr (Some e))) = 0 \<and>
             OverTimePay (calculateOvertimeFields totalHours (Inr (Some e))) = 0"
    using assms by (simp add: calculateOvertimeFields_def Let_def)
  have batch: "overtimeHours (batch_attendanceData (Some e) eid a b c d dps ds dow) = 0 \<and>
               overTimePay (batch_attendanceData (Some e) eid a b c d dps ds dow) = 0"
    using f by (simp add: batch_attendanceData_def Let_def)
  have single: "overtimeHours (single_attendanceData (Some e) eid ds a b c d rm lt dp) = 0 \<and>
                overTimePay (single_attendanceData (Some e) eid ds a b c d rm lt dp) = 0"
    using f by (simp add: single_attendanceData_def Let_def)
  have summary: "sum_overtimeHours (calculateAddAttendanceSummary (Some e) a b c d) = 0 \<and>
                 sum_overTimePay (calculateAddAttendanceSummary (Some e) a b c d) = 0"
    using f by (simp add: calculateAddAttendanceSummary_def Let_def)
  show ?thesis
    using api batch single summary by simp
qed

theorem fixed_no_overtime_witness:
  "isFixedRate (Some \<lparr>rateType = ''Fixed'', employmentType = ''Regular'', type_field = [],
                     baseSalary = 30000, standardWorkweekHours = 40, allowance = 0,
                     coreWorkingHours = None\<rparr>) \<and>
   OvertimeHours (calculateOvertimeFields 12
     (Inr (Some \<lparr>rateType = ''Fixed'', employmentType = ''Regular'', type_field = [],
                 baseSalary = 30000, standardWorkweekHours = 40, allowance = 0,
                 coreWorkingHours = None\<rparr>))) = 0 \<and>
   OverTimePay (calculateOvertimeFields 12
     (Inr (Some \<lparr>rateType = ''Fixed'', employmentType = ''Regular'', type_field = [],
                 baseSalary = 30000, standardWorkweekHours = 40, allowance = 0,
                 coreWorkingHours = None\<rparr>))) = 0"
proof -
  have h: "isFixedRate (Some \<lparr>rateType = ''Fixed'', employmentType = ''Regular'', type_field = [],
                     baseSalary = 30000, standardWorkweekHours = 40, allowance = 0,
                     coreWorkingHours = None\<rparr>)"
    by code_simp
  show ?thesis
    using h fixed_no_overtime[OF h, where totalHours = 12] by simp
qed

text \<open>
  The claim as stated counts an employment type that contains \<open>monthly\<close> or
  \<open>salary\<close> as fixed. The code does not: with rate type \<open>Time-based\<close> and
  employment type \<open>Monthly\<close>, 10 hours against a 40-hour week give overtime.
\<close>

theorem fixed_no_overtime_counterexample:
  "claimed_fixed \<lparr>rateType = ''Time-based'', employmentType = ''Monthly'', type_field = [],
                  baseSalary = 30000, standardWorkweekHours = 40, allowance = 0,
                  coreWorkingHours = None\<rparr> \<and>
   OvertimeHours (calculateOvertimeFields 10
     (Inr (Some \<lparr>rateType = ''Time-based'', employmentType = ''Monthly'', type_field = [],
                 baseSalary = 30000, standardWorkweekHours = 40, allowance = 0,
                 coreWorkingHours = None\<rparr>))) = 429 / 100 \<and>
   OverTimePay (calculateOvertimeFields 10
     (Inr (Some \<lparr>rateType = ''Time-based'', employmentType = ''Monthly'', type_field = [],
                 baseSalary = 30000, standardWorkweekHours = 40, allowance = 0,
                 coreWorkingHours = None\<rparr>))) = 1875 / 2 \<and>
   overtimeHours (batch_attendanceData
     (Some \<lparr>rateType = ''Time-based'', employmentType = ''Monthly'', type_field = [],
            baseSalary = 30000, standardWorkweekHours = 40, allowance = 0,
            coreWorkingHours = None\<rparr>)
     ''E1'' (Some (8, 0)) (Some (12, 0)) (Some (13, 0)) (Some (19, 0)) False ''2024-06-03'' 1) = 30 / 7"
  by code_simp

section \<open>Overtime pay of time-based employees\<close>







section \<open>calculateHourlyRate is safe on every employee object\<close>




text \<open>On an employee with number fields both copies are the typed function.\<close>

lemma calculateHourlyRate_attendance_typed:
  "calculateHourlyRate_attendance str2num (map_option raw_of emp) = Fin (calculateHourlyRate emp)"
  by (cases emp)
     (auto simp: calculateHourlyRate_attendance_def calculateHourlyRate_def att_base_def
        att_daily_def att_standard_def opt_baseSalary_def opt_standardWorkweekHours_def
        raw_of_def Let_def)

lemma calculateHourlyRate_clockin_typed:
  "calculateHourlyRate_clockin str2num (map_option raw_of emp) = Fin (calculateHourlyRate emp)"
  by (cases emp)
     (auto simp: calculateHourlyRate_clockin_def calculateHourlyRate_def api_base_def
        api_daily_def api_standard_def opt_baseSalary_def opt_standardWorkweekHours_def
        raw_of_def Let_def)






section \<open>The unlogged-lunch rule\<close>

lemma lunch_minutes_claimed:
  "dailyStandardHours > 0 \<Longrightarrow>
   lunch_minutes hasAM hasPM scheduleSpan dailyStandardHours (rawMinutes / 60) =
     (if claimed_lunch_condition hasAM hasPM scheduleSpan dailyStandardHours rawMinutes
      then 60 else 0)"
  by (cases scheduleSpan) (auto simp: lunch_minutes_def claimed_lunch_condition_def)

text \<open>
  Whatever the daily standard, the minutes the rule adds are 60 or 0, and 60 only under
  the condition of the specification.
\<close>

lemma lunch_minutes_only_if:
  "lunch_minutes hasAM hasPM scheduleSpan dailyStandardHours (rawMinutes / 60) = 60 \<or>
   lunch_minutes hasAM hasPM scheduleSpan dailyStandardHours (rawMinutes / 60) = 0"
  "lunch_minutes hasAM hasPM scheduleSpan dailyStandardHours (rawMinutes / 60) = 60 \<Longrightarrow>
   claimed_lunch_condition hasAM hasPM scheduleSpan dailyStandardHours rawMinutes"
  by (cases scheduleSpan; auto simp: lunch_minutes_def claimed_lunch_condition_def split: if_splits)+

text \<open>
  Claim C5, as the code has it. For an employee whose standard workweek is positive (a
  missing or zero one counts as 40), the batch add and the live summary of the add form
  add exactly 60 minutes to the worked minutes when both sessions are present, the
  schedule span is known and at least the daily standard, and the raw hours are below the
  daily standard, and add nothing in every other case; the total hours are the minutes
  divided by 60. The single add never adds minutes: its total hours are the raw minutes
  divided by 60, and it lowers the daily standard by one hour when the schedule span
  equals the daily standard and exceeds 8.
\<close>

theorem lunch_rule:
  assumes "standardWorkweekHours_or_40 employee > 0"
  shows "totalHoursWorked (batch_attendanceData employee eid a b c d dps ds dow) =
           (form_totalMinutes a b c d +
            (if claimed_lunch_condition (has_session a b) (has_session c d) (employee_span employee)
                  (standardWorkweekHours_or_40 employee / 7) (form_totalMinutes a b c d)
             then 60 else 0)) / 60 \<and>
         sum_totalHoursWorked (calculateAddAttendanceSummary employee a b c d) =
           (form_totalMinutes a b c d +
            (if claimed_lunch_condition (has_session a b) (has_session c d) (employee_span employee)
                  (standardWorkweekHours_or_40 employee / 7) (form_totalMinutes a b c d)
             then 60 else 0)) / 60 \<and>
         totalHoursWorked (single_attendanceData employee eid ds a b c d rm lt dp) =
           form_totalMinutes a b c d / 60 \<and>
         single_dailyStandardHours employee =
           (if employee_span employee = Some (standardWorkweekHours_or_40 employee / 7) \<and>
               standardWorkweekHours_or_40 employee / 7 > 8
            then standardWorkweekHours_or_40 employee / 7 - 1
            else standardWorkweekHours_or_40 employee / 7)"
proof -
  have pos: "standardWorkweekHours_or_40 employee / 7 > 0"
    using assms by simp
  note lm = lunch_minutes_claimed[OF pos]
  have batch: "totalHoursWorked (batch_attendanceData employee eid a b c d dps ds dow) =
           (form_totalMinutes a b c d +
            (if claimed_lunch_condition (has_session a b) (has_session c d) (employee_span employee)
                  (standardWorkweekHours_or_40 employee / 7) (form_totalMinutes a b c d)
             then 60 else 0)) / 60"
    unfolding batch_attendanceData_def Let_def lm by simp
  have summary: "sum_totalHoursWorked (calculateAddAttendanceSummary employee a b c d) =
           (form_totalMinutes a b c d +
            (if claimed_lunch_condition (has_session a b) (has_session c d) (employee_span employee)
                  (standardWorkweekHours_or_40 employee / 7) (form_totalMinutes a b c d)
             then 60 else 0)) / 60"
    unfolding calculateAddAttendanceSummary_def Let_def lm by simp
  have single: "totalHoursWorked (single_attendanceData employee eid ds a b c d rm lt dp) =
           form_totalMinutes a b c d / 60"
    by (simp add: single_attendanceData_def Let_def)
  have std: "single_dailyStandardHours employee =
           (if employee_span employee = Some (standardWorkweekHours_or_40 employee / 7) \<and>
               standardWorkweekHours_or_40 employee / 7 > 8
            then standardWorkweekHours_or_40 employee / 7 - 1
            else standardWorkweekHours_or_40 employee / 7)"
    by (cases "employee_span employee") (auto simp: single_dailyStandardHours_def Let_def)
  show ?thesis
    using batch summary single std by simp
qed

theorem lunch_rule_witness:
  "standardWorkweekHours_or_40
     (Some \<lparr>rateType = ''Time-based'', employmentType = [], type_field = [], baseSalary = 30000,
            standardWorkweekHours = 56, allowance = 0,
            coreWorkingHours = Some ''8:00 AM - 5:00 PM''\<rparr>) > 0 \<and>
   totalHoursWorked (batch_attendanceData
     (Some \<lparr>rateType = ''Time-based'', employmentType = [], type_field = [], baseSalary = 30000,
            standardWorkweekHours = 56, allowance = 0,
            coreWorkingHours = Some ''8:00 AM - 5:00 PM''\<rparr>)
     ''E1'' (Some (8, 0)) (Some (12, 0)) (Some (13, 0)) (Some (16, 0)) False ''2024-06-03'' 1) = 8"
proof -
  let ?e = "Some \<lparr>rateType = ''Time-based'', employmentType = [], type_field = [], baseSalary = 30000,
            standardWorkweekHours = 56, allowance = 0,
            coreWorkingHours = Some ''8:00 AM - 5:00 PM''\<rparr>"
  have h: "standardWorkweekHours_or_40 ?e > 0"
    by (simp add: standardWorkweekHours_or_40_def)
  have c: "claimed_lunch_condition (has_session (Some (8, 0)) (Some (12, 0)))
             (has_session (Some (13, 0)) (Some (16, 0))) (employee_span ?e)
             (standardWorkweekHours_or_40 ?e / 7)
             (form_totalMinutes (Some (8, 0)) (Some (12, 0)) (Some (13, 0)) (Some (16, 0)))"
    by code_simp
  have m: "form_totalMinutes (Some (8, 0)) (Some (12, 0)) (Some (13, 0)) (Some (16, 0)) = 420"
    by (simp add: form_totalMinutes_def session_minutes_def)
  show ?thesis
    using h c lunch_rule[OF h, of "''E1''" "Some (8, 0)" "Some (12, 0)" "Some (13, 0)" "Some (16, 0)"
        False "''2024-06-03''" 1]
    by (simp add: m)
qed

text \<open>
  The claim as stated covers every record creation. The single add is one, and adds
  nothing: with a 56-hour week (daily standard 8), a schedule from 8 to 5 (span 9) and
  punches 8 to 12 and 1 to 4 (7 hours), the condition holds and the total stays 7.
\<close>

theorem lunch_rule_counterexample:
  "claimed_lunch_condition (has_session (Some (8, 0)) (Some (12, 0)))
     (has_session (Some (13, 0)) (Some (16, 0)))
     (employee_span
       (Some \<lparr>rateType = ''Time-based'', employmentType = [], type_field = [], baseSalary = 30000,
              standardWorkweekHours = 56, allowance = 0,
              coreWorkingHours = Some ''8:00 AM - 5:00 PM''\<rparr>))
     (56 / 7)
     (form_totalMinutes (Some (8, 0)) (Some (12, 0)) (Some (13, 0)) (Some (16, 0))) \<and>
   form_totalMinutes (Some (8, 0)) (Some (12, 0)) (Some (13, 0)) (Some (16, 0)) = 420 \<and>
   totalHoursWorked (single_attendanceData
     (Some \<lparr>rateType = ''Time-based'', employmentType = [], type_field = [], baseSalary = 30000,
            standardWorkweekHours = 56, allowance = 0,
            coreWorkingHours = Some ''8:00 AM - 5:00 PM''\<rparr>)
     ''E1'' ''2024-06-03'' (Some (8, 0)) (Some (12, 0)) (Some (13, 0)) (Some (16, 0)) [] [] False) = 7"
  by code_simp

section \<open>Worked minutes and out-times before in-times\<close>

text \<open>
  The clock computes a session as the specification says: the difference of the two
  times when both are there and the second is later, else 0. Its hours are never
  negative.
\<close>

lemma clock_session_max:
  "parseTimeToMinutes timeIn = Some inM \<Longrightarrow> parseTimeToMinutes timeOut = Some outM \<Longrightarrow>
   clock_session timeIn timeOut = max 0 (rat_of_nat outM - rat_of_nat inM)"
  by (auto simp: clock_session_def max_def)

lemma clock_session_nonneg: "0 \<le> clock_session timeIn timeOut"
  by (auto simp: clock_session_def split: option.splits)

lemma calculateTotalHours_nonneg: "0 \<le> calculateTotalHours r"
  unfolding calculateTotalHours_def Let_def
  using clock_session_nonneg[of "TimeInAM r" "TimeOutAM r"]
    clock_session_nonneg[of "TimeInPM r" "TimeOutPM r"]
  by simp

text \<open>The forms count a session only when both of its fields are filled in.\<close>

lemma session_minutes_missing:
  "timeIn = None \<or> timeOut = None \<Longrightarrow> session_minutes timeIn timeOut = 0"
  by (auto simp: session_minutes_def split: option.splits)

text \<open>
  Claim C6 at the failing input. The forms of attendance.js add the difference of the two
  times of a session without the \<open>max(0, .)\<close> of the specification: an AM session
  from 12:00 to 08:00 contributes -240 minutes, and the record of the single add and of
  the batch add stores -4 hours.
\<close>

theorem form_minutes_negative:
  "session_minutes (Some (12, 0)) (Some (8, 0)) = - 240 \<and>
   form_totalMinutes (Some (12, 0)) (Some (8, 0)) None None = - 240 \<and>
   totalHoursWorked (single_attendanceData None ''E1'' ''2024-06-03''
     (Some (12, 0)) (Some (8, 0)) None None [] [] False) = - 4 \<and>
   totalHoursWorked (batch_attendanceData None ''E1''
     (Some (12, 0)) (Some (8, 0)) None None False ''2024-06-03'' 1) = - 4"
  by code_simp

section \<open>The status of a day with one complete session\<close>

text \<open>
  Claim C7, as the code has it. For a record that is not today's, with no leave and
  exactly one complete session, the badge of the clock page and the monthly summary give
  Invalid below half an hour, else Short Hours below three quarters of half the daily
  standard, else Half Day, the daily standard being the standard workweek (40 when it is
  missing or 0) divided by 7. The payroll breakdown decides in the same order with its
  own daily standard, lowered by one hour when the schedule span equals the weekly figure
  and exceeds 8, and calls the middle case Undertime.
\<close>

theorem half_day_status:
  assumes "one_session flds" and "no_leave flds"
  shows "getAttendanceStatusBadge flds False emp =
           claimed_half_day_status (standardWorkweekHours_or_40 emp / 7) (TotalHoursWorked flds) \<and>
         monthly_status emp flds =
           Some (claimed_half_day_status (standardWorkweekHours_or_40 emp / 7) (TotalHoursWorked flds)) \<and>
         breakdown_status (breakdown_dailyStandardHours emp) flds =
           (if TotalHoursWorked flds < 1 / 2 then Invalid
            else if TotalHoursWorked flds < breakdown_dailyStandardHours emp / 2 * (3 / 4) then Undertime
            else HalfDay)"
proof -
  have leave: "\<not> (LeaveType flds \<noteq> [] \<and> LeaveType flds \<noteq> ''None'')"
    using assms(2) by (auto simp: no_leave_def)
  have badge: "getAttendanceStatusBadge flds False emp =
           claimed_half_day_status (standardWorkweekHours_or_40 emp / 7) (TotalHoursWorked flds)"
    using assms(1) leave
    by (auto simp: getAttendanceStatusBadge_def claimed_half_day_status_def one_session_def Let_def)
  have monthly: "monthly_status emp flds =
           Some (claimed_half_day_status (standardWorkweekHours_or_40 emp / 7) (TotalHoursWorked flds))"
    using assms(1) leave
    by (auto simp: monthly_status_def claimed_half_day_status_def one_session_def Let_def)
  have breakdown: "breakdown_status (breakdown_dailyStandardHours emp) flds =
           (if TotalHoursWorked flds < 1 / 2 then Invalid
            else if TotalHoursWorked flds < breakdown_dailyStandardHours emp / 2 * (3 / 4) then Undertime
            else HalfDay)"
    using assms(1)
    by (auto simp: breakdown_status_def one_session_def Let_def)
  show ?thesis
    using badge monthly breakdown by simp
qed

theorem half_day_status_witness:
  "one_session (empty_fields\<lparr>TimeInAM := ''08:00'', TimeOutAM := ''12:00'', TotalHoursWorked := 4\<rparr>) \<and>
   no_leave (empty_fields\<lparr>TimeInAM := ''08:00'', TimeOutAM := ''12:00'', TotalHoursWorked := 4\<rparr>) \<and>
   getAttendanceStatusBadge
     (empty_fields\<lparr>TimeInAM := ''08:00'', TimeOutAM := ''12:00'', TotalHoursWorked := 4\<rparr>)
     False None = HalfDay"
proof -
  let ?f = "empty_fields\<lparr>TimeInAM := ''08:00'', TimeOutAM := ''12:00'', TotalHoursWorked := 4\<rparr>"
  have h1: "one_session ?f"
    by code_simp
  have h2: "no_leave ?f"
    by code_simp
  have v: "claimed_half_day_status (standardWorkweekHours_or_40 None / 7) (TotalHoursWorked ?f) = HalfDay"
    by code_simp
  show ?thesis
    using h1 h2 half_day_status[OF h1 h2, of None] v by simp
qed

text \<open>
  The claim as stated takes the daily standard to be the standard workweek divided by 7
  everywhere. In the payroll breakdown a 63-hour week with a schedule from 8 to 5 has the
  daily standard 8, not 9: a morning of 3.2 hours is a Half Day there, where the claim
  says Short Hours (3.2 is below 3.375).
\<close>

theorem half_day_status_counterexample:
  "one_session (empty_fields\<lparr>TimeInAM := ''08:00'', TimeOutAM := ''11:12'', TotalHoursWorked := 16 / 5\<rparr>) \<and>
   no_leave (empty_fields\<lparr>TimeInAM := ''08:00'', TimeOutAM := ''11:12'', TotalHoursWorked := 16 / 5\<rparr>) \<and>
   breakdown_status
     (breakdown_dailyStandardHours
        (Some \<lparr>rateType = ''Time-based'', employmentType = [], type_field = [], baseSalary = 30000,
               standardWorkweekHours = 63, allowance = 0,
               coreWorkingHours = Some ''8:00 AM - 5:00 PM''\<rparr>))
     (empty_fields\<lparr>TimeInAM := ''08:00'', TimeOutAM := ''11:12'', TotalHoursWorked := 16 / 5\<rparr>) = HalfDay \<and>
   claimed_half_day_status (63 / 7) (16 / 5) = ShortHours"
  by code_simp

section \<open>Perfect attendance bonus\<close>









section \<open>Skipping the salary advance deduction\<close>

text \<open>The state after the skip, and what is shown and stored there.\<close>

lemma setAdvanceDeduction_advance:
  "currentAdvanceDeductionData (setAdvanceDeduction shouldDeduct st) =
     (currentAdvanceDeductionData st)
       \<lparr>deductionAmount := (if shouldDeduct then outstandingBalance (currentAdvanceDeductionData st) else 0)\<rparr>"
  by (simp add: setAdvanceDeduction_def updateBreakdownTotals_def checkAdvanceWarning_def Let_def)

lemma setAdvanceDeduction_shown:
  "shown_netPay (setAdvanceDeduction shouldDeduct st) =
     cd_get totalEarnings st -
     ((if excludeAllDeductions_input st then 0
       else cd_get sssContribution st + cd_get philHealthContribution st +
            cd_get pagIbigContribution st + cd_get withholdingTax st) +
      (if shouldDeduct then outstandingBalance (currentAdvanceDeductionData st) else 0) +
      cd_get otherDeductions st)"
  by (simp add: setAdvanceDeduction_def updateBreakdownTotals_def checkAdvanceWarning_def Let_def
        cd_get_def)

lemma setAdvanceDeduction_calculated:
  "calculatedData st = Some cd \<Longrightarrow>
   \<exists>cd'. calculatedData (setAdvanceDeduction shouldDeduct st) = Some cd' \<and>
         netPay cd' = shown_netPay (setAdvanceDeduction shouldDeduct st) \<and>
         advanceDeduction cd' =
           (if shouldDeduct then outstandingBalance (currentAdvanceDeductionData st) else 0) \<and>
         excludeAllDeductions cd' = excludeAllDeductions_input st \<and>
         totalEarnings cd' = totalEarnings cd \<and> sssContribution cd' = sssContribution cd \<and>
         philHealthContribution cd' = philHealthContribution cd \<and>
         pagIbigContribution cd' = pagIbigContribution cd \<and>
         withholdingTax cd' = withholdingTax cd \<and> otherDeductions cd' = otherDeductions cd \<and>
         lateDed cd' = lateDed cd \<and> absentDed cd' = absentDed cd"
  by (simp add: setAdvanceDeduction_def updateBreakdownTotals_def checkAdvanceWarning_def Let_def
        cd_get_def)

text \<open>
  Claim C4, as the code has it. Let the outstanding balance of the period be positive and
  the figures of the period be loaded. After the caller skips the deduction
  (\<open>setAdvanceDeduction(false)\<close>): the planned deduction is 0 and the advance state
  still holds the outstanding balance; the net pay shown and stored is the earnings less
  the contributions and other deductions, the balance not subtracted, so it exceeds by the
  balance the net pay of the deducting choice; \<open>saveBreakdownRecord\<close> warns with the
  outstanding balance and, when the user confirms, hands on a payroll item whose advance
  deduction is 0 and whose net pay is the gross pay less the other deductions only, while
  the state keeps the balance; when the user declines, nothing is handed on.
\<close>

theorem skip_advance_deduction:
  assumes "outstandingBalance (currentAdvanceDeductionData st) = bal" and "bal > 0"
    and "calculatedData st = Some cd"
  shows "deductionAmount (currentAdvanceDeductionData (setAdvanceDeduction False st)) = 0 \<and>
         outstandingBalance (currentAdvanceDeductionData (setAdvanceDeduction False st)) = bal \<and>
         shown_netPay (setAdvanceDeduction False st) =
           totalEarnings cd -
           ((if excludeAllDeductions_input st then 0
             else sssContribution cd + philHealthContribution cd + pagIbigContribution cd +
                  withholdingTax cd) + otherDeductions cd) \<and>
         shown_netPay (setAdvanceDeduction False st) = shown_netPay (setAdvanceDeduction True st) + bal \<and>
         (\<exists>cd'. calculatedData (setAdvanceDeduction False st) = Some cd' \<and>
                netPay cd' = shown_netPay (setAdvanceDeduction False st) \<and> advanceDeduction cd' = 0) \<and>
         snd (saveBreakdownRecord False (setAdvanceDeduction False st)) = Cancelled bal \<and>
         (\<exists>item. snd (saveBreakdownRecord True (setAdvanceDeduction False st)) = Submitted (Some bal) item \<and>
                 salaryAdvanceDeduction item = 0 \<and>
                 item_netPay item =
                   totalEarnings cd -
                   ((if excludeAllDeductions_input st then 0
                     else sssContribution cd + philHealthContribution cd + pagIbigContribution cd +
                          withholdingTax cd) + otherDeductions cd + lateDed cd + absentDed cd)) \<and>
         outstandingBalance
           (currentAdvanceDeductionData (fst (saveBreakdownRecord True (setAdvanceDeduction False st)))) = bal"
proof -
  let ?s = "setAdvanceDeduction False st"
  have adv: "currentAdvanceDeductionData ?s = (currentAdvanceDeductionData st)\<lparr>deductionAmount := 0\<rparr>"
    by (simp add: setAdvanceDeduction_advance)
  have d0: "deductionAmount (currentAdvanceDeductionData ?s) = 0"
    and ob: "outstandingBalance (currentAdvanceDeductionData ?s) = bal"
    using assms(1) by (simp_all add: adv)
  have shown: "shown_netPay ?s =
           totalEarnings cd -
           ((if excludeAllDeductions_input st then 0
             else sssContribution cd + philHealthContribution cd + pagIbigContribution cd +
                  withholdingTax cd) + otherDeductions cd)"
    using assms(3) by (simp add: setAdvanceDeduction_shown cd_get_def)
  have diff: "shown_netPay ?s = shown_netPay (setAdvanceDeduction True st) + bal"
    using assms(1) by (simp add: setAdvanceDeduction_shown)
  obtain cd' where cd': "calculatedData ?s = Some cd'" "netPay cd' = shown_netPay ?s"
      "advanceDeduction cd' = 0" "excludeAllDeductions cd' = excludeAllDeductions_input st"
      "totalEarnings cd' = totalEarnings cd" "sssContribution cd' = sssContribution cd"
      "philHealthContribution cd' = philHealthContribution cd"
      "pagIbigContribution cd' = pagIbigContribution cd"
      "withholdingTax cd' = withholdingTax cd" "otherDeductions cd' = otherDeductions cd"
      "lateDed cd' = lateDed cd" "absentDed cd' = absentDed cd"
    using setAdvanceDeduction_calculated[OF assms(3), of False] by auto
  have stored: "\<exists>c. calculatedData ?s = Some c \<and> netPay c = shown_netPay ?s \<and> advanceDeduction c = 0"
    using cd' by blast
  have declined: "snd (saveBreakdownRecord False ?s) = Cancelled bal"
    using cd'(1) d0 ob assms(2) by (simp add: saveBreakdownRecord_def Let_def)
  have confirmed:
    "\<exists>item. snd (saveBreakdownRecord True ?s) = Submitted (Some bal) item \<and>
            salaryAdvanceDeduction item = 0 \<and>
            item_netPay item =
              totalEarnings cd -
              ((if excludeAllDeductions_input st then 0
                else sssContribution cd + philHealthContribution cd + pagIbigContribution cd +
                     withholdingTax cd) + otherDeductions cd + lateDed cd + absentDed cd)"
    using cd' d0 ob assms(2) by (simp add: saveBreakdownRecord_def Let_def)
  have kept: "outstandingBalance (currentAdvanceDeductionData (fst (saveBreakdownRecord True ?s))) = bal"
    using cd'(1) ob by (simp add: saveBreakdownRecord_def Let_def)
  show ?thesis
    using d0 ob shown diff stored declined confirmed kept by blast
qed

text \<open>The scenario of the specification: an outstanding balance of 2000.\<close>

theorem skip_advance_deduction_witness:
  "outstandingBalance \<lparr>outstandingBalance = 2000, deductionAmount = 2000\<rparr> = 2000 \<and> (2000::rat) > 0 \<and>
   shown_netPay (setAdvanceDeduction False
     \<lparr>calculatedData = Some
        \<lparr>totalEarnings = 15000, sssContribution = 500, philHealthContribution = 300,
         pagIbigContribution = 100, withholdingTax = 100, sssEmployer = 0, philHealthEmployer = 0,
         pagIbigEmployer = 0, otherDeductions = 0, lateDed = 0, absentDed = 0,
         advanceDeduction = 2000, totalDeductions = 3000, netPay = 12000,
         excludeAllDeductions = False, effectiveGovtContributionsTotal = 1000\<rparr>,
      currentAdvanceDeductionData = \<lparr>outstandingBalance = 2000, deductionAmount = 2000\<rparr>,
      excludeAllDeductions_input = False, skipAdvanceDeduction_value = False,
      skipAdvanceDeduction_checked = False, shown_netPay = 12000,
      shown_advanceWarning = False\<rparr>) = 14000 \<and>
   outstandingBalance (currentAdvanceDeductionData (setAdvanceDeduction False
     \<lparr>calculatedData = Some
        \<lparr>totalEarnings = 15000, sssContribution = 500, philHealthContribution = 300,
         pagIbigContribution = 100, withholdingTax = 100, sssEmployer = 0, philHealthEmployer = 0,
         pagIbigEmployer = 0, otherDeductions = 0, lateDed = 0, absentDed = 0,
         advanceDeduction = 2000, totalDeductions = 3000, netPay = 12000,
         excludeAllDeductions = False, effectiveGovtContributionsTotal = 1000\<rparr>,
      currentAdvanceDeductionData = \<lparr>outstandingBalance = 2000, deductionAmount = 2000\<rparr>,
      excludeAllDeductions_input = False, skipAdvanceDeduction_value = False,
      skipAdvanceDeduction_checked = False, shown_netPay = 12000,
      shown_advanceWarning = False\<rparr>)) = 2000 \<and>
   snd (saveBreakdownRecord False (setAdvanceDeduction False
     \<lparr>calculatedData = Some
        \<lparr>totalEarnings = 15000, sssContribution = 500, philHealthContribution = 300,
         pagIbigContribution = 100, withholdingTax = 100, sssEmployer = 0, philHealthEmployer = 0,
         pagIbigEmployer = 0, otherDeductions = 0, lateDed = 0, absentDed = 0,
         advanceDeduction = 2000, totalDeductions = 3000, netPay = 12000,
         excludeAllDeductions = False, effectiveGovtContributionsTotal = 1000\<rparr>,
      currentAdvanceDeductionData = \<lparr>outstandingBalance = 2000, deductionAmount = 2000\<rparr>,
      excludeAllDeductions_input = False, skipAdvanceDeduction_value = False,
      skipAdvanceDeduction_checked = False, shown_netPay = 12000,
      shown_advanceWarning = False\<rparr>)) = Cancelled 2000"
proof -
  let ?cd = "\<lparr>totalEarnings = 15000, sssContribution = 500, philHealthContribution = 300,
         pagIbigContribution = 100, withholdingTax = 100, sssEmployer = 0, philHealthEmployer = 0,
         pagIbigEmployer = 0, otherDeductions = 0, lateDed = 0, absentDed = 0,
         advanceDeduction = 2000, totalDeductions = 3000, netPay = 12000,
         excludeAllDeductions = False, effectiveGovtContributionsTotal = 1000\<rparr>"
  let ?st = "\<lparr>calculatedData = Some ?cd,
      currentAdvanceDeductionData = \<lparr>outstandingBalance = 2000, deductionAmount = 2000\<rparr>,
      excludeAllDeductions_input = False, skipAdvanceDeduction_value = False,
      skipAdvanceDeduction_checked = False, shown_netPay = 12000,
      shown_advanceWarning = False\<rparr>"
  have h1: "outstandingBalance (currentAdvanceDeductionData ?st) = 2000"
    by simp
  have h2: "(2000::rat) > 0"
    by simp
  have h3: "calculatedData ?st = Some ?cd"
    by simp
  show ?thesis
    using skip_advance_deduction[OF h1 h2 h3] by simp
qed

text \<open>
  The claim as stated has the persisted result of the period carry the outstanding
  balance. The payroll item has no field for it: after a skip, the items handed on for an
  outstanding balance of 2000 and of 5000 are the same item, with an advance deduction
  of 0.
\<close>

theorem skip_advance_deduction_counterexample:
  "submitted_item (snd (saveBreakdownRecord True (setAdvanceDeduction False
     \<lparr>calculatedData = Some
        \<lparr>totalEarnings = 15000, sssContribution = 500, philHealthContribution = 300,
         pagIbigContribution = 100, withholdingTax = 100, sssEmployer = 0, philHealthEmployer = 0,
         pagIbigEmployer = 0, otherDeductions = 0, lateDed = 0, absentDed = 0,
         advanceDeduction = 2000, totalDeductions = 3000, netPay = 12000,
         excludeAllDeductions = False, effectiveGovtContributionsTotal = 1000\<rparr>,
      currentAdvanceDeductionData = \<lparr>outstandingBalance = 2000, deductionAmount = 2000\<rparr>,
      excludeAllDeductions_input = False, skipAdvanceDeduction_value = False,
      skipAdvanceDeduction_checked = False, shown_netPay = 12000,
      shown_advanceWarning = False\<rparr>))) =
     Some \<lparr>grossPay = 15000, item_netPay = 14000, item_sssContribution = 500,
           item_philHealthContribution = 300, item_pagIbigContribution = 100,
           item_withholdingTax = 100, lateDeductions = 0, absentDeductions = 0,
           salaryAdvanceDeduction = 0, item_otherDeductions = 0, item_totalDeductions = 1000\<rparr> \<and>
   submitted_item (snd (saveBreakdownRecord True (setAdvanceDeduction False
     \<lparr>calculatedData = Some
        \<lparr>totalEarnings = 15000, sssContribution = 500, philHealthContribution = 300,
         pagIbigContribution = 100, withholdingTax = 100, sssEmployer = 0, philHealthEmployer = 0,
         pagIbigEmployer = 0, otherDeductions = 0, lateDed = 0, absentDed = 0,
         advanceDeduction = 5000, totalDeductions = 6000, netPay = 9000,
         excludeAllDeductions = False, effectiveGovtContributionsTotal = 1000\<rparr>,
      currentAdvanceDeductionData = \<lparr>outstandingBalance = 5000, deductionAmount = 5000\<rparr>,
      excludeAllDeductions_input = False, skipAdvanceDeduction_value = False,
      skipAdvanceDeduction_checked = False, shown_netPay = 9000,
      shown_advanceWarning = False\<rparr>))) =
     Some \<lparr>grossPay = 15000, item_netPay = 14000, item_sssContribution = 500,
           item_philHealthContribution = 300, item_pagIbigContribution = 100,
           item_withholdingTax = 100, lateDeductions = 0, absentDeductions = 0,
           salaryAdvanceDeduction = 0, item_otherDeductions = 0, item_totalDeductions = 1000\<rparr>"
  by code_simp

section \<open>Creating a record for a key that has one\<close>



















end
